theory Spec2Isabelle
  imports Main "HOL-Library.AList"
begin

section \<open>JavaScript values used by the provider\<close>

text \<open>
  An object literal with string-like keys is an association list in insertion order.
  Assigning a key that exists replaces its value in place, assigning a new key appends
  it (\<open>AList.update\<close>); the spread \<open>{...base, ...over}\<close> assigns the entries of
  \<open>over\<close> one after the other. An optional value (\<open>x?: T\<close>) is a \<open>T option\<close>, with
  \<open>None\<close> for \<open>undefined\<close>. A thrown \<open>new Error(message)\<close> is the value \<open>Error message\<close>,
  returned on the left of a sum.
\<close>

datatype error = Error string

definition objectSpread :: "('k \<times> 'v) list \<Rightarrow> ('k \<times> 'v) list \<Rightarrow> ('k \<times> 'v) list" where
  "objectSpread base over = fold (\<lambda>(k, v). AList.update k v) over base"

text \<open>The operator \<open>x ?? d\<close>.\<close>

definition nullish :: "'a option \<Rightarrow> 'a \<Rightarrow> 'a" where
  "nullish x d = (case x of None \<Rightarrow> d | Some v \<Rightarrow> v)"

text \<open>Spreading an optional object: \<open>...undefined\<close> adds nothing.\<close>

definition spreadArg :: "('k \<times> 'v) list option \<Rightarrow> ('k \<times> 'v) list" where
  "spreadArg x = nullish x []"

text \<open>\<open>Array.prototype.join\<close>.\<close>

fun join :: "string \<Rightarrow> string list \<Rightarrow> string" where
  "join sep [] = []"
| "join sep [x] = x"
| "join sep (x # y # ys) = x @ sep @ join sep (y # ys)"

section \<open>Constants of the module\<close>

datatype ClaudeModelAlias = Sonnet | Opus | Haiku

fun alias_name :: "ClaudeModelAlias \<Rightarrow> string" where
  "alias_name Sonnet = ''sonnet''"
| "alias_name Opus = ''opus''"
| "alias_name Haiku = ''haiku''"

text \<open>\<open>CLAUDE_ALIASES\<close>: a set, iterated in insertion order.\<close>

definition CLAUDE_ALIASES :: "ClaudeModelAlias list" where
  "CLAUDE_ALIASES = [Sonnet, Opus, Haiku]"

definition DEFAULT_CUSTOM_TOOLS_SYSTEM_PROMPT :: string where
  "DEFAULT_CUSTOM_TOOLS_SYSTEM_PROMPT =
     ''You are running inside the Claude Code CLI with only custom developer-provided tools available. NEVER call Bash, Task, Shell, or any CLI tool; those calls will fail. Only use the explicitly provided tools and wait for a user tool_result before responding.''"

definition DEFAULT_CUSTOM_TOOLS_DISALLOWED :: "string list" where
  "DEFAULT_CUSTOM_TOOLS_DISALLOWED = [''Bash(*)'', ''Task(*)'']"

definition DEFAULT_MODEL_MAPPINGS :: "(ClaudeModelAlias \<times> string) list" where
  "DEFAULT_MODEL_MAPPINGS =
     [(Sonnet, ''glm-4.6''), (Opus, ''glm-4.6''), (Haiku, ''glm-4.5-air'')]"

definition CORE_ALLOWED_TOOLS :: "string list" where
  "CORE_ALLOWED_TOOLS =
     [''Bash'', ''Read'', ''Write'', ''Edit'', ''LS'', ''Grep'', ''Glob'', ''TodoRead'',
      ''TodoWrite'']"

definition WEB_SEARCH_ALLOWED_TOOLS :: "string list" where
  "WEB_SEARCH_ALLOWED_TOOLS = [''mcp__web-search-prime__webSearchPrime'']"

definition WEB_READER_ALLOWED_TOOLS :: "string list" where
  "WEB_READER_ALLOWED_TOOLS = [''mcp__web-reader__webReader'', ''WebFetch'']"

definition VISION_ALLOWED_TOOLS :: "string list" where
  "VISION_ALLOWED_TOOLS =
     [''mcp__zai-vision__image_analysis'', ''mcp__zai-vision__video_analysis'',
      ''mcp__zai-vision__analyze_image'', ''mcp__zai-vision__analyze_video'']"

definition WEB_SEARCH_SERVER :: string where
  "WEB_SEARCH_SERVER = ''https://api.z.ai/api/mcp/web_search_prime/mcp''"

definition WEB_READER_SERVER :: string where
  "WEB_READER_SERVER = ''https://api.z.ai/api/mcp/web_reader/mcp''"

section \<open>Merging tool lists\<close>

text \<open>
  \<open>mergeAllowedTools\<close> and \<open>mergeStringLists\<close> are two functions of the source, each with
  its own loop; each is translated on its own. The loop pushes onto \<open>merged\<close>; the test
  \<open>!tool\<close> holds for the empty string only, the entries being strings.
\<close>

fun mergeAllowedTools_loop :: "string list \<Rightarrow> string list \<Rightarrow> string list" where
  "mergeAllowedTools_loop merged [] = merged"
| "mergeAllowedTools_loop merged (tool # rest) =
     (if tool = [] \<or> tool \<in> set merged then mergeAllowedTools_loop merged rest
      else mergeAllowedTools_loop (merged @ [tool]) rest)"

definition mergeAllowedTools :: "string list \<Rightarrow> string list option \<Rightarrow> string list option" where
  "mergeAllowedTools defaults user =
     (let merged = (case user of
                      None \<Rightarrow> defaults
                    | Some u \<Rightarrow> if u \<noteq> [] then mergeAllowedTools_loop defaults u else defaults)
      in if merged \<noteq> [] then Some merged else None)"

fun mergeStringLists_loop :: "string list \<Rightarrow> string list \<Rightarrow> string list" where
  "mergeStringLists_loop merged [] = merged"
| "mergeStringLists_loop merged (entry # rest) =
     (if entry = [] \<or> entry \<in> set merged then mergeStringLists_loop merged rest
      else mergeStringLists_loop (merged @ [entry]) rest)"

definition mergeStringLists :: "string list \<Rightarrow> string list option \<Rightarrow> string list option" where
  "mergeStringLists defaults user =
     (let merged = (case user of
                      None \<Rightarrow> defaults
                    | Some u \<Rightarrow> if u \<noteq> [] then mergeStringLists_loop defaults u else defaults)
      in if merged \<noteq> [] then Some merged else None)"

text \<open>
  The merge as the specification words it: the entries of the user list that are not
  empty and not present in the defaults, each kept at its first occurrence.
\<close>

fun firstOccurrences :: "'a list \<Rightarrow> 'a list" where
  "firstOccurrences [] = []"
| "firstOccurrences (x # xs) = x # firstOccurrences (filter (\<lambda>y. y \<noteq> x) xs)"

definition newEntries :: "string list \<Rightarrow> string list \<Rightarrow> string list" where
  "newEntries defaultList userList =
     firstOccurrences (filter (\<lambda>x. x \<noteq> [] \<and> x \<notin> set defaultList) userList)"

section \<open>Resolving a model identifier\<close>

text \<open>
  \<open>mappings\<close> is the record from alias to vendor identifier; \<open>Object.entries\<close> lists it in
  insertion order. The loop returns at the first entry whose value is the requested
  identifier.
\<close>

fun resolveModelId_loop :: "string \<Rightarrow> (ClaudeModelAlias \<times> string) list \<Rightarrow> ClaudeModelAlias option" where
  "resolveModelId_loop requestedId [] = None"
| "resolveModelId_loop requestedId ((alias, mappedId) # rest) =
     (if mappedId = requestedId then Some alias else resolveModelId_loop requestedId rest)"

definition unsupportedModelMessage :: "string \<Rightarrow> string" where
  "unsupportedModelMessage requestedId =
     ''Unsupported model '' @ [CHR 0x22] @ requestedId @ [CHR 0x22] @ ''. Use one of ''
       @ join '', '' (map alias_name CLAUDE_ALIASES)
       @ '' or provide a matching entry via modelMappings.''"

definition resolveModelId :: "string \<Rightarrow> (ClaudeModelAlias \<times> string) list \<Rightarrow> error + ClaudeModelAlias" where
  "resolveModelId requestedId mappings =
     (case find (\<lambda>a. alias_name a = requestedId) CLAUDE_ALIASES of
        Some a \<Rightarrow> Inr a
      | None \<Rightarrow>
          (case resolveModelId_loop requestedId mappings of
             Some alias \<Rightarrow> Inr alias
           | None \<Rightarrow> Inl (Error (unsupportedModelMessage requestedId))))"

section \<open>Settings, options and auxiliary servers\<close>

text \<open>
  The settings record of the wrapped provider, with the fields this module computes.
  The fields \<open>env\<close> and \<open>appendSystemPrompt\<close> are left out: the first needs
  \<open>String(timeoutMs)\<close> on a floating-point number, the second \<open>trim\<close> on Unicode text,
  and neither feeds a field kept here. With them go the options \<open>anthropicBaseUrl\<close> and
  \<open>timeoutMs\<close>, read by \<open>env\<close> only.
\<close>

datatype McpServerConfig =
    McpHttp string "(string \<times> string) list option"
  | McpStdio string "string list option" "(string \<times> string option) list option"

record ClaudeCodeSettings =
  permissionMode :: "string option"
  allowedTools :: "string list option"
  disallowedTools :: "string list option"
  systemPrompt :: "string option"
  mcpServers :: "(string \<times> McpServerConfig) list option"

record VisionCommand =
  vc_command :: string
  vc_args :: "string list option"
  vc_env :: "(string \<times> string option) list option"

record CustomToolsOnlyOptions =
  cto_systemPrompt :: "string option"
  cto_allowedTools :: "string list option"
  cto_disallowedTools :: "string list option"

text \<open>
  The option \<open>customToolsOnly?: boolean | CustomToolsOnlyOptions\<close>. The option
  \<open>modelMappings\<close> is an object whose keys are aliases, by its type, and whose values
  are identifiers: a list of entries.
\<close>

datatype CustomToolsOnly = CustomToolsOnlyFlag bool | CustomToolsOnlyObject CustomToolsOnlyOptions

record CreateZaiClaudeCodeOptions =
  apiKey :: "string option"
  modelMappings :: "(ClaudeModelAlias \<times> string) list option"
  includeDefaultAllowedTools :: "bool option"
  enableWebSearchMcp :: "bool option"
  enableWebReaderMcp :: "bool option"
  enableVisionMcp :: "bool option"
  visionCommand :: "VisionCommand option"
  customToolsOnly :: "CustomToolsOnly option"
  defaultSettings :: "ClaudeCodeSettings option"

record NormalizedCustomToolsOnlyOptions =
  norm_enabled :: bool
  norm_allowedTools :: "string list"
  norm_disallowedTools :: "string list"
  norm_systemPrompt :: "string option"

text \<open>
  \<open>normalizeCustomToolsOnlyOptions\<close>: \<open>undefined\<close> and \<open>false\<close> are falsy and give the
  disabled record; \<open>true\<close> stands for the empty options object.
\<close>

definition normalizeEnabled :: "CustomToolsOnlyOptions \<Rightarrow> NormalizedCustomToolsOnlyOptions" where
  "normalizeEnabled options =
     \<lparr> norm_enabled = True,
       norm_allowedTools = nullish (cto_allowedTools options) [],
       norm_disallowedTools =
         nullish (mergeStringLists DEFAULT_CUSTOM_TOOLS_DISALLOWED (cto_disallowedTools options)) [],
       norm_systemPrompt = cto_systemPrompt options \<rparr>"

fun normalizeCustomToolsOnlyOptions :: "CustomToolsOnly option \<Rightarrow> NormalizedCustomToolsOnlyOptions" where
  "normalizeCustomToolsOnlyOptions None =
     \<lparr> norm_enabled = False, norm_allowedTools = [], norm_disallowedTools = [],
       norm_systemPrompt = None \<rparr>"
| "normalizeCustomToolsOnlyOptions (Some (CustomToolsOnlyFlag False)) =
     \<lparr> norm_enabled = False, norm_allowedTools = [], norm_disallowedTools = [],
       norm_systemPrompt = None \<rparr>"
| "normalizeCustomToolsOnlyOptions (Some (CustomToolsOnlyFlag True)) =
     normalizeEnabled
       \<lparr> cto_systemPrompt = None, cto_allowedTools = None, cto_disallowedTools = None \<rparr>"
| "normalizeCustomToolsOnlyOptions (Some (CustomToolsOnlyObject options)) =
     normalizeEnabled options"

record MergeMcpArgs =
  mm_apiKey :: string
  mm_enableWebSearch :: bool
  mm_enableWebReader :: bool
  mm_enableVision :: bool
  mm_userMcpServers :: "(string \<times> McpServerConfig) list option"
  mm_visionCommand :: "VisionCommand option"

definition webSearchDescriptor :: "string \<Rightarrow> McpServerConfig" where
  "webSearchDescriptor key =
     McpHttp WEB_SEARCH_SERVER (Some [(''Authorization'', ''Bearer '' @ key)])"

definition webReaderDescriptor :: "string \<Rightarrow> McpServerConfig" where
  "webReaderDescriptor key =
     McpHttp WEB_READER_SERVER (Some [(''Authorization'', ''Bearer '' @ key)])"

definition visionDescriptor :: "string \<Rightarrow> VisionCommand option \<Rightarrow> McpServerConfig" where
  "visionDescriptor key visionCmd =
     (let cmd = nullish visionCmd
                  \<lparr> vc_command = ''npx'', vc_args = Some [''-y'', ''@z_ai/mcp-server''],
                    vc_env = None \<rparr>
      in McpStdio (vc_command cmd)
           (Some (nullish (vc_args cmd) [''-y'', ''@z_ai/mcp-server'']))
           (Some (objectSpread [(''Z_AI_API_KEY'', Some key), (''Z_AI_MODE'', Some ''ZAI'')]
                    (spreadArg (vc_env cmd)))))"

text \<open>
  \<open>mergeMcpServers\<close>: the three guarded assignments to \<open>defaults\<close>, then the overlay. A
  user mapping is an object, truthy also when it is empty.
\<close>

definition mcpDefaults :: "MergeMcpArgs \<Rightarrow> (string \<times> McpServerConfig) list" where
  "mcpDefaults a =
     (let d0 = [];
          d1 = (if mm_enableWebSearch a
                then AList.update ''web-search-prime'' (webSearchDescriptor (mm_apiKey a)) d0
                else d0);
          d2 = (if mm_enableWebReader a
                then AList.update ''web-reader'' (webReaderDescriptor (mm_apiKey a)) d1
                else d1)
      in if mm_enableVision a
         then AList.update ''zai-vision'' (visionDescriptor (mm_apiKey a) (mm_visionCommand a)) d2
         else d2)"

definition mergeMcpServers :: "MergeMcpArgs \<Rightarrow> (string \<times> McpServerConfig) list option" where
  "mergeMcpServers a =
     (let defaults = mcpDefaults a
      in case mm_userMcpServers a of
           Some userMcpServers \<Rightarrow> Some (objectSpread defaults userMcpServers)
         | None \<Rightarrow> if defaults \<noteq> [] then Some defaults else None)"

section \<open>Creating the provider\<close>

definition missingKeyMessage :: string where
  "missingKeyMessage = ''ZAI_API_KEY is required. Pass options.apiKey or set the env var.''"

text \<open>
  The first statements of \<open>createZaiClaudeCode\<close>:
  \<open>apiKey = options.apiKey ?? process.env.ZAI_API_KEY; if (!apiKey) throw\<close>. The second
  argument is the environment variable, absent or a string.
\<close>

definition resolveCredentials :: "string option \<Rightarrow> string option \<Rightarrow> error + string" where
  "resolveCredentials explicitKey environmentKey =
     (case (case explicitKey of None \<Rightarrow> environmentKey | Some k \<Rightarrow> Some k) of
        None \<Rightarrow> Inl (Error missingKeyMessage)
      | Some k \<Rightarrow> if k = [] then Inl (Error missingKeyMessage) else Inr k)"

definition emptySettings :: ClaudeCodeSettings where
  "emptySettings =
     \<lparr> permissionMode = None, allowedTools = None, disallowedTools = None,
       systemPrompt = None, mcpServers = None \<rparr>"

text \<open>
  What \<open>createZaiClaudeCode\<close> hands on: the settings given to \<open>createClaudeCode\<close> and the
  mappings given to \<open>wrapProviderWithModelResolution\<close>.
\<close>

record ZaiProviderConfig =
  resolvedSettings :: ClaudeCodeSettings
  providerMappings :: "(ClaudeModelAlias \<times> string) list"

definition assembleSettings ::
  "CreateZaiClaudeCodeOptions \<Rightarrow> string \<Rightarrow> ClaudeCodeSettings" where
  "assembleSettings options key =
     (let customToolsOnly = normalizeCustomToolsOnlyOptions (customToolsOnly options);
          includeDefaultTools0 = nullish (includeDefaultAllowedTools options) True;
          enableWebSearch0 = nullish (enableWebSearchMcp options) True;
          enableWebReader0 = nullish (enableWebReaderMcp options) True;
          enableVision0 = nullish (enableVisionMcp options) True;
          includeDefaultTools = (if norm_enabled customToolsOnly then False else includeDefaultTools0);
          enableWebSearch = (if norm_enabled customToolsOnly then False else enableWebSearch0);
          enableWebReader = (if norm_enabled customToolsOnly then False else enableWebReader0);
          enableVision = (if norm_enabled customToolsOnly then False else enableVision0);
          userDefaults = nullish (defaultSettings options) emptySettings;
          baselineAllowedTools =
            (if norm_enabled customToolsOnly then norm_allowedTools customToolsOnly
             else (if includeDefaultTools then CORE_ALLOWED_TOOLS else [])
                @ (if enableWebSearch then WEB_SEARCH_ALLOWED_TOOLS else [])
                @ (if enableWebReader then WEB_READER_ALLOWED_TOOLS else [])
                @ (if enableVision then VISION_ALLOWED_TOOLS else []));
          allowed = mergeAllowedTools baselineAllowedTools (allowedTools userDefaults);
          shouldApplyDisallowed =
            (if norm_enabled customToolsOnly
             then (case allowed of None \<Rightarrow> True | Some l \<Rightarrow> l = [])
             else True);
          disallowed =
            (if shouldApplyDisallowed
             then mergeStringLists
                    (if norm_enabled customToolsOnly then norm_disallowedTools customToolsOnly
                     else [])
                    (disallowedTools userDefaults)
             else None);
          sysPrompt =
            (if norm_enabled customToolsOnly
             then Some (nullish (norm_systemPrompt customToolsOnly)
                          (nullish (systemPrompt userDefaults) DEFAULT_CUSTOM_TOOLS_SYSTEM_PROMPT))
             else systemPrompt userDefaults)
      in \<lparr> permissionMode = Some (nullish (permissionMode userDefaults) ''bypassPermissions''),
           allowedTools = allowed,
           disallowedTools = disallowed,
           systemPrompt = sysPrompt,
           mcpServers =
             mergeMcpServers
               \<lparr> mm_apiKey = key, mm_enableWebSearch = enableWebSearch,
                 mm_enableWebReader = enableWebReader, mm_enableVision = enableVision,
                 mm_userMcpServers = mcpServers userDefaults,
                 mm_visionCommand = visionCommand options \<rparr> \<rparr>)"

definition createZaiClaudeCode ::
  "CreateZaiClaudeCodeOptions \<Rightarrow> string option \<Rightarrow> error + ZaiProviderConfig" where
  "createZaiClaudeCode options environmentKey =
     (case resolveCredentials (apiKey options) environmentKey of
        Inl e \<Rightarrow> Inl e
      | Inr key \<Rightarrow>
          Inr \<lparr> resolvedSettings = assembleSettings options key,
                providerMappings =
                  objectSpread DEFAULT_MODEL_MAPPINGS (spreadArg (modelMappings options)) \<rparr>)"

text \<open>The default parameter \<open>options = {}\<close>.\<close>

definition defaultOptions :: CreateZaiClaudeCodeOptions where
  "defaultOptions =
     \<lparr> apiKey = None, modelMappings = None, includeDefaultAllowedTools = None,
       enableWebSearchMcp = None, enableWebReaderMcp = None, enableVisionMcp = None,
       visionCommand = None, customToolsOnly = None, defaultSettings = None \<rparr>"

text \<open>
  A built-in capability is wired when its flag, true by default, is true and the
  custom-tools-only policy is inactive.
\<close>

definition capabilityEnabled :: "bool option \<Rightarrow> CreateZaiClaudeCodeOptions \<Rightarrow> bool" where
  "capabilityEnabled flag options \<longleftrightarrow>
     nullish flag True \<and> \<not> norm_enabled (normalizeCustomToolsOnlyOptions (customToolsOnly options))"

section \<open>Wrapping the provider\<close>

text \<open>
  The provider of the wrapped library: a callable with four methods. Its functions are
  parameters here (type \<open>'m\<close> is what they return, \<open>'s\<close> the settings they take). The
  wrapper's own entry points can throw the error of \<open>resolveModelId\<close>, so they return a
  sum; the two bound methods return what the base returns.
\<close>

record ('s, 'm) ClaudeCodeProvider =
  providerCall :: "string \<Rightarrow> 's option \<Rightarrow> 'm"
  languageModel :: "string \<Rightarrow> 's option \<Rightarrow> 'm"
  chat :: "string \<Rightarrow> 's option \<Rightarrow> 'm"
  imageModel :: "string \<Rightarrow> 'm"
  textEmbeddingModel :: "string \<Rightarrow> 'm"

definition wrapProviderWithModelResolution ::
  "('s, 'm) ClaudeCodeProvider \<Rightarrow> (ClaudeModelAlias \<times> string) list
     \<Rightarrow> ('s, error + 'm) ClaudeCodeProvider" where
  "wrapProviderWithModelResolution baseProvider mappings =
     \<lparr> providerCall = (\<lambda>modelId settings.
         case resolveModelId modelId mappings of
           Inl e \<Rightarrow> Inl e
         | Inr a \<Rightarrow> Inr (providerCall baseProvider (alias_name a) settings)),
       languageModel = (\<lambda>modelId settings.
         case resolveModelId modelId mappings of
           Inl e \<Rightarrow> Inl e
         | Inr a \<Rightarrow> Inr (languageModel baseProvider (alias_name a) settings)),
       chat = (\<lambda>modelId settings.
         case resolveModelId modelId mappings of
           Inl e \<Rightarrow> Inl e
         | Inr a \<Rightarrow> Inr (chat baseProvider (alias_name a) settings)),
       imageModel = (\<lambda>modelId. Inr (imageModel baseProvider modelId)),
       textEmbeddingModel = (\<lambda>modelId. Inr (textEmbeddingModel baseProvider modelId)) \<rparr>"

text \<open>
  A base provider that returns the call it received: the entry point, the identifier and
  the settings.
\<close>

datatype EntryPoint = Callable | LanguageModel | Chat | ImageModel | TextEmbeddingModel

definition recordingProvider :: "('s, EntryPoint \<times> string \<times> 's option) ClaudeCodeProvider" where
  "recordingProvider =
     \<lparr> providerCall = (\<lambda>modelId settings. (Callable, modelId, settings)),
       languageModel = (\<lambda>modelId settings. (LanguageModel, modelId, settings)),
       chat = (\<lambda>modelId settings. (Chat, modelId, settings)),
       imageModel = (\<lambda>modelId. (ImageModel, modelId, None)),
       textEmbeddingModel = (\<lambda>modelId. (TextEmbeddingModel, modelId, None)) \<rparr>"

section \<open>Forced tool injection\<close>

text \<open>
  Messages and content blocks, with \<open>'i\<close> the type of a tool input and \<open>'r\<close> of a tool
  result. A tool's \<open>execute\<close> is optional; it returns a result or rejects with an \<open>'e\<close>.
  \<open>streamText\<close> is a parameter. The model returns the external calls made, in order,
  with the outcome.
\<close>

datatype Role = System | User | Assistant | ToolRole

datatype ('i, 'r) ContentBlock =
    ToolCallBlock string 'i
  | ToolResultBlock string 'r
  | TextBlock string

datatype ('i, 'r) MessageContent = TextContent string | BlockContent "('i, 'r) ContentBlock list"

record ('i, 'r) CoreMessage =
  role :: Role
  content :: "('i, 'r) MessageContent"

record ('i, 'r) ToolCallOptions =
  toolCallId :: string
  tco_messages :: "('i, 'r) CoreMessage list"

record ('i, 'r, 'e) Tool =
  execute :: "('i \<Rightarrow> ('i, 'r) ToolCallOptions \<Rightarrow> 'e + 'r) option"

record ('i, 'r, 'e, 'm) ForceCustomToolsArgs =
  fa_model :: 'm
  fa_tools :: "string \<Rightarrow> ('i, 'r, 'e) Tool option"
  fa_toolName :: string
  fa_toolInput :: 'i
  fa_messages :: "('i, 'r) CoreMessage list"
  fa_acknowledgement :: "string option"
  fa_systemPrompt :: "string option"

record ('i, 'r, 'e, 'm) StreamTextArgs =
  st_model :: 'm
  st_tools :: "string \<Rightarrow> ('i, 'r, 'e) Tool option"
  st_toolChoice :: string
  st_messages :: "('i, 'r) CoreMessage list"

datatype ('i, 'r, 'e, 'm) ExternalCall =
    ExecuteCall string 'i "('i, 'r) ToolCallOptions"
  | StreamTextCall "('i, 'r, 'e, 'm) StreamTextArgs"

datatype ('e, 's) ForceOutcome = Threw error | ExecuteRejected 'e | Streamed 's

definition DEFAULT_ACKNOWLEDGEMENT :: string where
  "DEFAULT_ACKNOWLEDGEMENT =
     ''Tool call completed. Use the result above verbatim and do not attempt to call CLI tools.''"

definition toolNotFoundMessage :: "string \<Rightarrow> string" where
  "toolNotFoundMessage toolName =
     ''Tool '' @ [CHR 0x22] @ toolName @ [CHR 0x22]
       @ '' is not defined or missing an execute handler.''"

definition runForcedTool ::
  "(('i, 'r, 'e, 'm) StreamTextArgs \<Rightarrow> 's) \<Rightarrow> ('i, 'r, 'e, 'm) ForceCustomToolsArgs
     \<Rightarrow> ('i \<Rightarrow> ('i, 'r) ToolCallOptions \<Rightarrow> 'e + 'r)
     \<Rightarrow> ('i, 'r, 'e, 'm) ExternalCall list \<times> ('e, 's) ForceOutcome" where
  "runForcedTool streamText a exec =
     (let acknowledgement = nullish (fa_acknowledgement a) DEFAULT_ACKNOWLEDGEMENT;
          callOptions = \<lparr> toolCallId = ''forced:'' @ fa_toolName a,
                          tco_messages = fa_messages a \<rparr>
      in case exec (fa_toolInput a) callOptions of
           Inl e \<Rightarrow> ([ExecuteCall (fa_toolName a) (fa_toolInput a) callOptions], ExecuteRejected e)
         | Inr manualResult \<Rightarrow>
             (let manualBlocks =
                    [ToolCallBlock (fa_toolName a) (fa_toolInput a),
                     ToolResultBlock (fa_toolName a) manualResult]
                    @ (if acknowledgement \<noteq> [] then [TextBlock acknowledgement] else []);
                  augmentedMessages =
                    [\<lparr> role = System,
                       content = TextContent
                         (nullish (fa_systemPrompt a) DEFAULT_CUSTOM_TOOLS_SYSTEM_PROMPT) \<rparr>]
                    @ fa_messages a
                    @ [\<lparr> role = Assistant, content = BlockContent manualBlocks \<rparr>];
                  streamArgs = \<lparr> st_model = fa_model a, st_tools = fa_tools a,
                                 st_toolChoice = fa_toolName a,
                                 st_messages = augmentedMessages \<rparr>
              in ([ExecuteCall (fa_toolName a) (fa_toolInput a) callOptions,
                   StreamTextCall streamArgs],
                  Streamed (streamText streamArgs))))"

definition forceCustomTools ::
  "(('i, 'r, 'e, 'm) StreamTextArgs \<Rightarrow> 's) \<Rightarrow> ('i, 'r, 'e, 'm) ForceCustomToolsArgs
     \<Rightarrow> ('i, 'r, 'e, 'm) ExternalCall list \<times> ('e, 's) ForceOutcome" where
  "forceCustomTools streamText a =
     (case fa_tools a (fa_toolName a) of
        None \<Rightarrow> ([], Threw (Error (toolNotFoundMessage (fa_toolName a))))
      | Some tool \<Rightarrow>
          (case execute tool of
             None \<Rightarrow> ([], Threw (Error (toolNotFoundMessage (fa_toolName a))))
           | Some exec \<Rightarrow> runForcedTool streamText a exec))"

text \<open>
  Arguments for \<open>forceCustomTools\<close> in the manner of the module's tests: one tool that
  echoes its input, a second entry without a handler, one user message.
\<close>

definition echoTools :: "string \<Rightarrow> (string, string, unit) Tool option" where
  "echoTools =
     [''echo_tool'' \<mapsto> \<lparr> execute = Some (\<lambda>text callOptions. Inr (''echoed: '' @ text)) \<rparr>,
      ''inert'' \<mapsto> \<lparr> execute = None \<rparr>]"

definition echoArgs :: "string \<Rightarrow> string option \<Rightarrow> (string, string, unit, unit) ForceCustomToolsArgs" where
  "echoArgs toolName acknowledgement =
     \<lparr> fa_model = (), fa_tools = echoTools, fa_toolName = toolName,
       fa_toolInput = ''custom_check'',
       fa_messages = [\<lparr> role = User, content = TextContent ''run tool'' \<rparr>],
       fa_acknowledgement = acknowledgement, fa_systemPrompt = Some ''be concise'' \<rparr>"

section \<open>Properties of the list merge\<close>

lemma set_firstOccurrences: "set (firstOccurrences xs) = set xs"
  by (induction xs rule: firstOccurrences.induct) auto

lemma distinct_firstOccurrences: "distinct (firstOccurrences xs)"
  by (induction xs rule: firstOccurrences.induct) (auto simp: set_firstOccurrences)

lemma set_newEntries: "set (newEntries d u) = {x \<in> set u. x \<noteq> [] \<and> x \<notin> set d}"
  by (auto simp: newEntries_def set_firstOccurrences)

lemma distinct_newEntries: "distinct (newEntries d u)"
  by (simp add: newEntries_def distinct_firstOccurrences)

text \<open>The loop, started on \<open>merged\<close>, appends the new entries of the user list.\<close>

lemma mergeAllowedTools_loop_newEntries:
  "mergeAllowedTools_loop merged user = merged @ newEntries merged user"
proof (induction user arbitrary: merged)
  case Nil
  show ?case by (simp add: newEntries_def)
next
  case (Cons tool rest)
  show ?case
  proof (cases "tool = [] \<or> tool \<in> set merged")
    case True
    then show ?thesis using Cons.IH [of merged] by (auto simp: newEntries_def)
  next
    case False
    have "filter (\<lambda>x. x \<noteq> [] \<and> x \<notin> set (merged @ [tool])) rest
        = filter (\<lambda>y. y \<noteq> tool) (filter (\<lambda>x. x \<noteq> [] \<and> x \<notin> set merged) rest)"
      by (induction rest) auto
    then have "newEntries (merged @ [tool]) rest
        = firstOccurrences (filter (\<lambda>y. y \<noteq> tool) (filter (\<lambda>x. x \<noteq> [] \<and> x \<notin> set merged) rest))"
      by (simp only: newEntries_def)
    with False show ?thesis using Cons.IH [of "merged @ [tool]"]
      by (simp add: newEntries_def)
  qed
qed

lemma merge_loops_agree: "mergeStringLists_loop merged user = mergeAllowedTools_loop merged user"
  by (induction user arbitrary: merged) auto

lemma mergeAllowedTools_eq:
  "mergeAllowedTools d u =
     (if d @ newEntries d (nullish u []) = [] then None
      else Some (d @ newEntries d (nullish u [])))"
  by (cases u)
    (auto simp: mergeAllowedTools_def nullish_def mergeAllowedTools_loop_newEntries Let_def
       newEntries_def)

lemma mergeStringLists_eq:
  "mergeStringLists d u =
     (if d @ newEntries d (nullish u []) = [] then None
      else Some (d @ newEntries d (nullish u [])))"
  by (cases u)
    (auto simp: mergeStringLists_def nullish_def merge_loops_agree
       mergeAllowedTools_loop_newEntries Let_def newEntries_def)

text \<open>
  C3, as stated, fails where the claim says that no element appears twice: the defaults
  are copied as they are, so a default list with a repeated name (the allowlist of the
  custom-tools-only options is such a list, given by the caller) is returned with it.
\<close>

theorem mergeAllowedTools_duplicate_counterexample:
  "mergeAllowedTools [''X'', ''X''] None = Some [''X'', ''X''] \<and> \<not> distinct [''X'', ''X'']"
  by (simp add: mergeAllowedTools_def)

text \<open>
  C3 (amended): for every default list and every optional user list, the merged list is
  the default list, in its order, followed by the entries of the user list that are not
  empty and not already present (exact match), each at its first occurrence and in the
  user list's order; the result is absent, never an empty list, when there is no entry;
  every element of the result is in the default list or in the user list; the appended
  entries are pairwise different and none is in the default list, so no element appears
  twice when the default list has no repeated element.
\<close>

theorem mergeAllowedTools_merged:
  "mergeAllowedTools defaultList userList =
     (if defaultList @ newEntries defaultList (nullish userList []) = [] then None
      else Some (defaultList @ newEntries defaultList (nullish userList [])))
   \<and> set (newEntries defaultList (nullish userList []))
       = {x \<in> set (nullish userList []). x \<noteq> [] \<and> x \<notin> set defaultList}
   \<and> distinct (newEntries defaultList (nullish userList []))
   \<and> (\<forall>r. mergeAllowedTools defaultList userList = Some r \<longrightarrow>
         r \<noteq> [] \<and> set r \<subseteq> set defaultList \<union> set (nullish userList [])
         \<and> (distinct defaultList \<longrightarrow> distinct r))"
  by (auto simp: mergeAllowedTools_eq set_newEntries distinct_newEntries)

theorem mergeAllowedTools_merged_witness:
  "mergeAllowedTools [''Bash'', ''Read'']
       (Some [''Read'', [], ''Graphviz'', ''Bash'', ''Graphviz'', ''LS''])
     = Some [''Bash'', ''Read'', ''Graphviz'', ''LS'']
   \<and> distinct [''Bash'', ''Read'', ''Graphviz'', ''LS'']
   \<and> mergeAllowedTools [] (Some [[]]) = None"
  using mergeAllowedTools_merged
      [of "[''Bash'', ''Read'']" "Some [''Read'', [], ''Graphviz'', ''Bash'', ''Graphviz'', ''LS'']"]
    mergeAllowedTools_merged [of "[]" "Some [[]]"]
  by (simp add: newEntries_def nullish_def)

text \<open>
  C8: \<open>mergeAllowedTools\<close> and \<open>mergeStringLists\<close>, two routines of the source, return equal
  results for every default list and every optional user list.
\<close>

theorem merge_routines_agree:
  "mergeAllowedTools defaults user = mergeStringLists defaults user"
  by (cases user) (simp_all add: mergeAllowedTools_def mergeStringLists_def merge_loops_agree)

section \<open>Properties of the model resolution\<close>

lemma find_alias_name:
  "find (\<lambda>b. alias_name b = alias_name a) CLAUDE_ALIASES = Some a"
  by (cases a) (simp_all add: CLAUDE_ALIASES_def)

lemma find_alias_None:
  "find (\<lambda>b. alias_name b = r) CLAUDE_ALIASES = None \<longleftrightarrow> r \<notin> set (map alias_name CLAUDE_ALIASES)"
  by (auto simp: find_None_iff)

lemma resolveModelId_loop_None:
  "resolveModelId_loop r t = None \<longleftrightarrow> r \<notin> snd ` set t"
  by (induction r t rule: resolveModelId_loop.induct) auto

text \<open>The loop stops at the first entry, in list order, that holds the identifier.\<close>

lemma resolveModelId_loop_first:
  "resolveModelId_loop r t = Some b \<Longrightarrow>
     \<exists>pre post. t = pre @ (b, r) # post \<and> r \<notin> snd ` set pre"
proof (induction r t rule: resolveModelId_loop.induct)
  case (1 requestedId)
  then show ?case by simp
next
  case (2 requestedId al mappedId rest)
  show ?case
  proof (cases "mappedId = requestedId")
    case True
    with 2 have "(al, mappedId) # rest = [] @ (b, requestedId) # rest" by simp
    then show ?thesis by (metis empty_iff image_empty list.set(1))
  next
    case False
    with 2 obtain pre post where "rest = pre @ (b, requestedId) # post" "requestedId \<notin> snd ` set pre"
      by auto
    with False have "(al, mappedId) # rest = ((al, mappedId) # pre) @ (b, requestedId) # post
        \<and> requestedId \<notin> snd ` set ((al, mappedId) # pre)"
      by auto
    then show ?thesis by blast
  qed
qed

lemma resolveModelId_loop_mapped:
  "resolveModelId_loop r t = Some b \<Longrightarrow> (b, r) \<in> set t"
  by (induction r t rule: resolveModelId_loop.induct) (auto split: if_splits)

text \<open>
  Overriding entries of a table that has every alias as a key leaves the keys, and their
  order, as they are.
\<close>

lemma objectSpread_keys_total:
  "set (map fst base) = UNIV \<Longrightarrow> map fst (objectSpread base over) = map fst base"
proof (induction over arbitrary: base)
  case Nil
  then show ?case by (simp add: objectSpread_def)
next
  case (Cons kv over)
  obtain k v where kv: "kv = (k, v)" by (cases kv)
  have keys: "map fst (AList.update k v base) = map fst base"
    using Cons.prems by (simp add: update_keys)
  have "objectSpread base (kv # over) = objectSpread (AList.update k v base) over"
    by (simp add: objectSpread_def kv)
  with Cons.IH [of "AList.update k v base"] keys Cons.prems show ?case by simp
qed

lemma UNIV_alias: "(UNIV :: ClaudeModelAlias set) = {Sonnet, Opus, Haiku}"
  by (auto intro: ClaudeModelAlias.exhaust)

lemma effective_mappings_keys:
  "map fst (objectSpread DEFAULT_MODEL_MAPPINGS over) = CLAUDE_ALIASES"
proof -
  have "set (map fst DEFAULT_MODEL_MAPPINGS) = UNIV"
    by (simp add: DEFAULT_MODEL_MAPPINGS_def UNIV_alias)
  then have "map fst (objectSpread DEFAULT_MODEL_MAPPINGS over) = map fst DEFAULT_MODEL_MAPPINGS"
    by (rule objectSpread_keys_total)
  then show ?thesis by (simp add: DEFAULT_MODEL_MAPPINGS_def CLAUDE_ALIASES_def)
qed

lemma createZaiClaudeCode_mappings:
  "createZaiClaudeCode options environmentKey = Inr p \<Longrightarrow>
     providerMappings p = objectSpread DEFAULT_MODEL_MAPPINGS (spreadArg (modelMappings options))"
  by (auto simp: createZaiClaudeCode_def split: sum.splits)

text \<open>
  C1 (amended): in the mappings table of a created provider (the built-in defaults
  overlaid with the caller's overrides) the keys are sonnet, opus, haiku in this order;
  for every alias \<open>a\<close>, resolving the name of \<open>a\<close> returns \<open>a\<close>; and for every entry
  \<open>(a, m)\<close> of the table whose identifier \<open>m\<close> is not itself one of the three alias names,
  resolving \<open>m\<close> returns the first alias, in the table's order, that is mapped to \<open>m\<close>,
  which is \<open>a\<close> when no other alias is mapped to \<open>m\<close>.
\<close>

theorem resolveModelId_left_inverse:
  assumes "createZaiClaudeCode options environmentKey = Inr p"
  shows "map fst (providerMappings p) = CLAUDE_ALIASES
    \<and> resolveModelId (alias_name a) (providerMappings p) = Inr a
    \<and> ((a, m) \<in> set (providerMappings p) \<and> m \<notin> set (map alias_name CLAUDE_ALIASES) \<longrightarrow>
         (\<exists>b pre post. resolveModelId m (providerMappings p) = Inr b
            \<and> providerMappings p = pre @ (b, m) # post \<and> m \<notin> snd ` set pre)
         \<and> ((\<forall>c. (c, m) \<in> set (providerMappings p) \<longrightarrow> c = a) \<longrightarrow>
               resolveModelId m (providerMappings p) = Inr a))"
proof (intro conjI impI)
  show "map fst (providerMappings p) = CLAUDE_ALIASES"
    using createZaiClaudeCode_mappings [OF assms] by (simp add: effective_mappings_keys)
  show "resolveModelId (alias_name a) (providerMappings p) = Inr a"
    by (simp add: resolveModelId_def find_alias_name)
next
  assume h: "(a, m) \<in> set (providerMappings p) \<and> m \<notin> set (map alias_name CLAUDE_ALIASES)"
  then have none: "find (\<lambda>b. alias_name b = m) CLAUDE_ALIASES = None"
    by (simp add: find_alias_None)
  from h have "m \<in> snd ` set (providerMappings p)" by force
  then obtain b where b: "resolveModelId_loop m (providerMappings p) = Some b"
    using resolveModelId_loop_None [of m "providerMappings p"] by (cases "resolveModelId_loop m (providerMappings p)") auto
  then have res: "resolveModelId m (providerMappings p) = Inr b"
    by (simp add: resolveModelId_def none)
  from resolveModelId_loop_first [OF b] res
  show "\<exists>b pre post. resolveModelId m (providerMappings p) = Inr b
            \<and> providerMappings p = pre @ (b, m) # post \<and> m \<notin> snd ` set pre"
    by blast
  assume "\<forall>c. (c, m) \<in> set (providerMappings p) \<longrightarrow> c = a"
  with resolveModelId_loop_mapped [OF b] have "b = a" by blast
  with res show "resolveModelId m (providerMappings p) = Inr a" by simp
qed

theorem resolveModelId_left_inverse_witness:
  "createZaiClaudeCode (defaultOptions\<lparr>apiKey := Some ''unit-key'', modelMappings := Some [(Opus, ''glm-custom'')]\<rparr>) None
     = Inr \<lparr> resolvedSettings = assembleSettings (defaultOptions\<lparr>apiKey := Some ''unit-key'', modelMappings := Some [(Opus, ''glm-custom'')]\<rparr>) ''unit-key'',
             providerMappings = [(Sonnet, ''glm-4.6''), (Opus, ''glm-custom''), (Haiku, ''glm-4.5-air'')] \<rparr>
   \<and> resolveModelId ''opus'' [(Sonnet, ''glm-4.6''), (Opus, ''glm-custom''), (Haiku, ''glm-4.5-air'')] = Inr Opus
   \<and> resolveModelId ''glm-custom'' [(Sonnet, ''glm-4.6''), (Opus, ''glm-custom''), (Haiku, ''glm-4.5-air'')] = Inr Opus"
proof -
  let ?o = "defaultOptions\<lparr>apiKey := Some ''unit-key'', modelMappings := Some [(Opus, ''glm-custom'')]\<rparr>"
  let ?t = "[(Sonnet, ''glm-4.6''), (Opus, ''glm-custom''), (Haiku, ''glm-4.5-air'')]"
  have h: "createZaiClaudeCode ?o None
     = Inr \<lparr> resolvedSettings = assembleSettings ?o ''unit-key'', providerMappings = ?t \<rparr>"
    by (simp add: createZaiClaudeCode_def defaultOptions_def resolveCredentials_def
        objectSpread_def spreadArg_def nullish_def DEFAULT_MODEL_MAPPINGS_def)
  from resolveModelId_left_inverse [OF h, of Opus "''glm-custom''"] h
  show ?thesis by (simp add: CLAUDE_ALIASES_def)
qed

text \<open>
  C1, as stated, fails for a mapped identifier that is itself an alias name: the test on
  the alias names comes first. With sonnet mapped to the identifier \<open>opus\<close>, resolving
  that identifier returns the alias opus, which is mapped to another identifier, and not
  sonnet.
\<close>

theorem resolveModelId_alias_shadows_identifier_counterexample:
  "createZaiClaudeCode (defaultOptions\<lparr>apiKey := Some ''unit-key'', modelMappings := Some [(Sonnet, ''opus'')]\<rparr>) None
     = Inr \<lparr> resolvedSettings = assembleSettings (defaultOptions\<lparr>apiKey := Some ''unit-key'', modelMappings := Some [(Sonnet, ''opus'')]\<rparr>) ''unit-key'',
             providerMappings = [(Sonnet, ''opus''), (Opus, ''glm-4.6''), (Haiku, ''glm-4.5-air'')] \<rparr>
   \<and> resolveModelId ''opus'' [(Sonnet, ''opus''), (Opus, ''glm-4.6''), (Haiku, ''glm-4.5-air'')] = Inr Opus
   \<and> resolveModelId ''opus'' [(Sonnet, ''opus''), (Opus, ''glm-4.6''), (Haiku, ''glm-4.5-air'')] \<noteq> Inr Sonnet"
  by (simp add: createZaiClaudeCode_def defaultOptions_def resolveCredentials_def
        objectSpread_def spreadArg_def nullish_def DEFAULT_MODEL_MAPPINGS_def
        resolveModelId_def CLAUDE_ALIASES_def)

text \<open>
  C2: \<open>resolveModelId\<close> throws if and only if the requested identifier is none of the
  three alias names and is not the identifier of any entry of the table; the message of
  the error holds the requested identifier, between double quotes, and the alias names
  sonnet, opus, haiku.
\<close>

theorem resolveModelId_unsupported:
  "((\<exists>e. resolveModelId requestedId mappings = Inl e) \<longleftrightarrow>
      requestedId \<notin> set (map alias_name CLAUDE_ALIASES) \<and> requestedId \<notin> snd ` set mappings)
   \<and> (\<forall>e. resolveModelId requestedId mappings = Inl e \<longrightarrow>
         e = Error (''Unsupported model '' @ [CHR 0x22] @ requestedId @ [CHR 0x22]
               @ ''. Use one of sonnet, opus, haiku or provide a matching entry via modelMappings.''))"
proof -
  have msg: "unsupportedModelMessage requestedId
      = ''Unsupported model '' @ [CHR 0x22] @ requestedId @ [CHR 0x22]
          @ ''. Use one of sonnet, opus, haiku or provide a matching entry via modelMappings.''"
    by (simp add: unsupportedModelMessage_def CLAUDE_ALIASES_def)
  have iff: "(\<exists>e. resolveModelId requestedId mappings = Inl e) \<longleftrightarrow>
      find (\<lambda>a. alias_name a = requestedId) CLAUDE_ALIASES = None
      \<and> resolveModelId_loop requestedId mappings = None"
    by (auto simp: resolveModelId_def split: option.splits)
  have err: "\<forall>e. resolveModelId requestedId mappings = Inl e \<longrightarrow>
      e = Error (unsupportedModelMessage requestedId)"
    by (auto simp: resolveModelId_def split: option.splits)
  show ?thesis
    using iff err unfolding msg find_alias_None resolveModelId_loop_None by blast
qed

theorem resolveModelId_unsupported_witness:
  "resolveModelId ''glm-unknown'' [(Sonnet, ''glm-4.6''), (Opus, ''glm-4.6''), (Haiku, ''glm-4.5-air'')]
     = Inl (Error (''Unsupported model '' @ [CHR 0x22] @ ''glm-unknown'' @ [CHR 0x22]
           @ ''. Use one of sonnet, opus, haiku or provide a matching entry via modelMappings.''))"
  using resolveModelId_unsupported [of "''glm-unknown''" "[(Sonnet, ''glm-4.6''), (Opus, ''glm-4.6''), (Haiku, ''glm-4.5-air'')]"]
  by (auto simp: CLAUDE_ALIASES_def)


section \<open>Properties of the resolved settings\<close>

lemma createZaiClaudeCode_settings:
  "createZaiClaudeCode options environmentKey = Inr p \<Longrightarrow>
     \<exists>key. resolveCredentials (apiKey options) environmentKey = Inr key
       \<and> resolvedSettings p = assembleSettings options key"
  by (auto simp: createZaiClaudeCode_def split: sum.splits)

text \<open>The fields of the assembled settings, read off the function.\<close>

lemma assembleSettings_allowedTools:
  "allowedTools (assembleSettings options key) =
     (let c = normalizeCustomToolsOnlyOptions (customToolsOnly options);
          ud = nullish (defaultSettings options) emptySettings
      in mergeAllowedTools
           (if norm_enabled c then norm_allowedTools c
            else (if nullish (includeDefaultAllowedTools options) True then CORE_ALLOWED_TOOLS else [])
               @ (if nullish (enableWebSearchMcp options) True then WEB_SEARCH_ALLOWED_TOOLS else [])
               @ (if nullish (enableWebReaderMcp options) True then WEB_READER_ALLOWED_TOOLS else [])
               @ (if nullish (enableVisionMcp options) True then VISION_ALLOWED_TOOLS else []))
           (allowedTools ud))"
  by (simp add: assembleSettings_def Let_def)

lemma mergeAllowedTools_not_empty: "mergeAllowedTools d u \<noteq> Some []"
  by (simp add: mergeAllowedTools_eq)

lemma assembleSettings_disallowedTools:
  "disallowedTools (assembleSettings options key) =
     (let c = normalizeCustomToolsOnlyOptions (customToolsOnly options);
          ud = nullish (defaultSettings options) emptySettings
      in if norm_enabled c
         then (if allowedTools (assembleSettings options key) = None
               then mergeStringLists (norm_disallowedTools c) (disallowedTools ud)
               else None)
         else mergeStringLists [] (disallowedTools ud))"
  using mergeAllowedTools_not_empty
  by (auto simp: assembleSettings_def Let_def split: option.splits)

lemma assembleSettings_mcpServers:
  "mcpServers (assembleSettings options key) =
     (let c = normalizeCustomToolsOnlyOptions (customToolsOnly options);
          ud = nullish (defaultSettings options) emptySettings
      in mergeMcpServers
           \<lparr> mm_apiKey = key,
             mm_enableWebSearch = (nullish (enableWebSearchMcp options) True \<and> \<not> norm_enabled c),
             mm_enableWebReader = (nullish (enableWebReaderMcp options) True \<and> \<not> norm_enabled c),
             mm_enableVision = (nullish (enableVisionMcp options) True \<and> \<not> norm_enabled c),
             mm_userMcpServers = mcpServers ud,
             mm_visionCommand = visionCommand options \<rparr>)"
  by (simp add: assembleSettings_def Let_def)

text \<open>
  C5 (amended): the explicit key is returned whenever it is present and not empty; when
  the explicit key is absent, the key of the environment is returned if it is present
  and not empty; the missing-credential error is thrown exactly when the explicit key is
  the empty string (whatever the environment holds), or the explicit key is absent and
  the key of the environment is absent or empty; and \<open>createZaiClaudeCode\<close> throws this
  error in exactly these cases.
\<close>

theorem resolveCredentials_precedence:
  "(explicitKey = Some k \<and> k \<noteq> [] \<longrightarrow> resolveCredentials explicitKey environmentKey = Inr k)
   \<and> (explicitKey = None \<and> environmentKey = Some k \<and> k \<noteq> [] \<longrightarrow>
        resolveCredentials explicitKey environmentKey = Inr k)
   \<and> ((\<exists>e. resolveCredentials explicitKey environmentKey = Inl e) \<longleftrightarrow>
        explicitKey = Some [] \<or> explicitKey = None \<and> (environmentKey = None \<or> environmentKey = Some []))
   \<and> (\<forall>e. resolveCredentials explicitKey environmentKey = Inl e \<longrightarrow>
        e = Error ''ZAI_API_KEY is required. Pass options.apiKey or set the env var.'')
   \<and> (\<forall>options e. apiKey options = explicitKey \<longrightarrow>
        (createZaiClaudeCode options environmentKey = Inl e
           \<longleftrightarrow> resolveCredentials explicitKey environmentKey = Inl e))"
  by (auto simp: resolveCredentials_def createZaiClaudeCode_def missingKeyMessage_def
      split: option.splits sum.splits if_splits)

theorem resolveCredentials_precedence_witness:
  "resolveCredentials (Some ''override-key'') (Some ''env-key'') = Inr ''override-key''
   \<and> resolveCredentials None (Some ''env-key'') = Inr ''env-key''
   \<and> resolveCredentials None None
       = Inl (Error ''ZAI_API_KEY is required. Pass options.apiKey or set the env var.'')
   \<and> createZaiClaudeCode defaultOptions None
       = Inl (Error ''ZAI_API_KEY is required. Pass options.apiKey or set the env var.'')"
proof -
  have "\<exists>e. resolveCredentials None None = Inl e"
    using resolveCredentials_precedence [of None "[]" None] by blast
  then have "resolveCredentials None None
       = Inl (Error ''ZAI_API_KEY is required. Pass options.apiKey or set the env var.'')"
    using resolveCredentials_precedence [of None "[]" None] by blast
  moreover from this have "createZaiClaudeCode defaultOptions None
       = Inl (Error ''ZAI_API_KEY is required. Pass options.apiKey or set the env var.'')"
    using resolveCredentials_precedence [of None "[]" None] by (simp add: defaultOptions_def)
  ultimately show ?thesis
    using resolveCredentials_precedence [of "Some ''override-key''" "''override-key''" "Some ''env-key''"]
      resolveCredentials_precedence [of None "''env-key''" "Some ''env-key''"]
    by simp
qed

text \<open>
  C5, as stated, fails for an explicit key that is present and empty: \<open>??\<close> keeps it, so
  the key of the environment is not read and the error is thrown although the
  environment holds a key.
\<close>

theorem resolveCredentials_empty_explicit_counterexample:
  "resolveCredentials (Some []) (Some ''env-key'')
     = Inl (Error ''ZAI_API_KEY is required. Pass options.apiKey or set the env var.'')
   \<and> resolveCredentials (Some []) (Some ''env-key'') \<noteq> Inr ''env-key''"
  by (simp add: resolveCredentials_def missingKeyMessage_def)

text \<open>
  C4 (amended): in the settings of every created provider the allowlist is never an
  empty list; when the custom-tools-only policy is active and the allowlist is present,
  no list of disallowed tools is attached; when the policy is inactive, the list of
  disallowed tools is the merge of the caller's default list, whatever the allowlist is.
\<close>

theorem allowlist_excludes_blocklist_when_custom:
  assumes "createZaiClaudeCode options environmentKey = Inr p"
  shows "allowedTools (resolvedSettings p) \<noteq> Some []
    \<and> (norm_enabled (normalizeCustomToolsOnlyOptions (customToolsOnly options)) \<and>
         allowedTools (resolvedSettings p) \<noteq> None \<longrightarrow>
           disallowedTools (resolvedSettings p) = None)
    \<and> (\<not> norm_enabled (normalizeCustomToolsOnlyOptions (customToolsOnly options)) \<longrightarrow>
           disallowedTools (resolvedSettings p)
             = mergeStringLists []
                 (disallowedTools (nullish (defaultSettings options) emptySettings)))"
proof -
  from createZaiClaudeCode_settings [OF assms] obtain key
    where rs: "resolvedSettings p = assembleSettings options key" by blast
  have "allowedTools (assembleSettings options key) \<noteq> Some []"
    by (simp add: assembleSettings_allowedTools Let_def mergeAllowedTools_not_empty)
  then show ?thesis
    unfolding rs by (simp add: assembleSettings_disallowedTools Let_def)
qed

theorem allowlist_excludes_blocklist_when_custom_witness:
  "createZaiClaudeCode
      (defaultOptions\<lparr>apiKey := Some ''unit-key'',
         customToolsOnly := Some (CustomToolsOnlyObject
           \<lparr> cto_systemPrompt = Some ''Only call CustomTool.'',
             cto_allowedTools = Some [''CustomTool''], cto_disallowedTools = Some [''Read''] \<rparr>),
         defaultSettings := Some (emptySettings\<lparr>allowedTools := Some [''AnotherTool'']\<rparr>)\<rparr>)
      None
    = Inr \<lparr> resolvedSettings =
              \<lparr> permissionMode = Some ''bypassPermissions'',
                allowedTools = Some [''CustomTool'', ''AnotherTool''],
                disallowedTools = None,
                systemPrompt = Some ''Only call CustomTool.'',
                mcpServers = None \<rparr>,
            providerMappings = [(Sonnet, ''glm-4.6''), (Opus, ''glm-4.6''), (Haiku, ''glm-4.5-air'')] \<rparr>"
proof -
  let ?o = "defaultOptions\<lparr>apiKey := Some ''unit-key'',
         customToolsOnly := Some (CustomToolsOnlyObject
           \<lparr> cto_systemPrompt = Some ''Only call CustomTool.'',
             cto_allowedTools = Some [''CustomTool''], cto_disallowedTools = Some [''Read''] \<rparr>),
         defaultSettings := Some (emptySettings\<lparr>allowedTools := Some [''AnotherTool'']\<rparr>)\<rparr>"
  have h: "createZaiClaudeCode ?o None
    = Inr \<lparr> resolvedSettings = assembleSettings ?o ''unit-key'',
            providerMappings = [(Sonnet, ''glm-4.6''), (Opus, ''glm-4.6''), (Haiku, ''glm-4.5-air'')] \<rparr>"
    by (simp add: createZaiClaudeCode_def defaultOptions_def resolveCredentials_def
        objectSpread_def spreadArg_def nullish_def DEFAULT_MODEL_MAPPINGS_def)
  have a: "allowedTools (assembleSettings ?o ''unit-key'') = Some [''CustomTool'', ''AnotherTool'']"
    by (simp add: assembleSettings_allowedTools defaultOptions_def emptySettings_def nullish_def
        normalizeEnabled_def mergeAllowedTools_def)
  have d: "disallowedTools (assembleSettings ?o ''unit-key'') = None"
    using allowlist_excludes_blocklist_when_custom [OF h] a
    by (simp add: normalizeEnabled_def)
  have rest: "permissionMode (assembleSettings ?o ''unit-key'') = Some ''bypassPermissions''
      \<and> systemPrompt (assembleSettings ?o ''unit-key'') = Some ''Only call CustomTool.''
      \<and> mcpServers (assembleSettings ?o ''unit-key'') = None"
    by (simp add: assembleSettings_def defaultOptions_def emptySettings_def nullish_def
        normalizeEnabled_def mergeMcpServers_def mcpDefaults_def Let_def)
  have "assembleSettings ?o ''unit-key'' =
              \<lparr> permissionMode = Some ''bypassPermissions'',
                allowedTools = Some [''CustomTool'', ''AnotherTool''],
                disallowedTools = None,
                systemPrompt = Some ''Only call CustomTool.'',
                mcpServers = None \<rparr>"
    using a d rest by (cases "assembleSettings ?o ''unit-key''") simp
  with h show ?thesis by simp
qed

text \<open>
  C4, as stated, fails when the policy is inactive: with the built-in allowlist and a
  caller's list of disallowed tools, both lists are attached.
\<close>

theorem allowlist_with_blocklist_counterexample:
  "allowedTools (assembleSettings
      (defaultOptions\<lparr>apiKey := Some ''unit-key'',
         defaultSettings := Some (emptySettings\<lparr>disallowedTools := Some [''Bash'']\<rparr>)\<rparr>) ''unit-key'')
     = Some [''Bash'', ''Read'', ''Write'', ''Edit'', ''LS'', ''Grep'', ''Glob'', ''TodoRead'',
        ''TodoWrite'', ''mcp__web-search-prime__webSearchPrime'', ''mcp__web-reader__webReader'',
        ''WebFetch'', ''mcp__zai-vision__image_analysis'', ''mcp__zai-vision__video_analysis'',
        ''mcp__zai-vision__analyze_image'', ''mcp__zai-vision__analyze_video'']
   \<and> disallowedTools (assembleSettings
      (defaultOptions\<lparr>apiKey := Some ''unit-key'',
         defaultSettings := Some (emptySettings\<lparr>disallowedTools := Some [''Bash'']\<rparr>)\<rparr>) ''unit-key'')
     = Some [''Bash'']"
  by (simp add: assembleSettings_allowedTools assembleSettings_disallowedTools
      defaultOptions_def emptySettings_def nullish_def mergeAllowedTools_def mergeStringLists_def
      CORE_ALLOWED_TOOLS_def WEB_SEARCH_ALLOWED_TOOLS_def WEB_READER_ALLOWED_TOOLS_def
      VISION_ALLOWED_TOOLS_def)


subsection \<open>The custom-tools-only policy\<close>

lemma mergeStringLists_pair:
  "mergeStringLists DEFAULT_CUSTOM_TOOLS_DISALLOWED extra
     = Some (DEFAULT_CUSTOM_TOOLS_DISALLOWED
          @ newEntries DEFAULT_CUSTOM_TOOLS_DISALLOWED (nullish extra []))"
  by (simp add: mergeStringLists_eq DEFAULT_CUSTOM_TOOLS_DISALLOWED_def)

lemma mergeStringLists_distinct:
  "distinct d \<Longrightarrow> mergeStringLists d u = Some r \<Longrightarrow> distinct r"
  by (auto simp: mergeStringLists_eq set_newEntries distinct_newEntries split: if_splits)

lemma mergeStringLists_prefix:
  "mergeStringLists d u = Some r \<Longrightarrow> take (length d) r = d"
  by (auto simp: mergeStringLists_eq split: if_splits)

lemma mergeStringLists_no_user:
  "u = None \<or> u = Some [] \<Longrightarrow> d \<noteq> [] \<Longrightarrow> mergeStringLists d u = Some d"
  by (auto simp: mergeStringLists_def)

text \<open>
  C6 (amended): when the custom-tools-only policy is active (the option is an options
  object, or \<open>true\<close>, which stands for the empty object), the resolved allowlist is the
  policy's allowlist merged with the allowlist of the caller's defaults; a list of
  disallowed tools is attached only if that allowlist is absent; in that case it is the
  always-blocked pair merged with the policy's extra blocked names, merged in turn with
  the disallowed list of the caller's defaults; it starts with the pair and holds each
  name once; and it equals the pair merged with the policy's extra names when the
  caller's defaults give no disallowed name.
\<close>

theorem custom_tools_only_lists:
  assumes created: "createZaiClaudeCode options environmentKey = Inr p"
    and active: "customToolsOnly options = Some (CustomToolsOnlyObject policy)
        \<or> customToolsOnly options = Some (CustomToolsOnlyFlag True)
          \<and> policy = \<lparr> cto_systemPrompt = None, cto_allowedTools = None,
                cto_disallowedTools = None \<rparr>"
  shows "allowedTools (resolvedSettings p)
        = mergeAllowedTools (nullish (cto_allowedTools policy) [])
            (allowedTools (nullish (defaultSettings options) emptySettings))
    \<and> (disallowedTools (resolvedSettings p) \<noteq> None \<longrightarrow> allowedTools (resolvedSettings p) = None)
    \<and> (allowedTools (resolvedSettings p) = None \<longrightarrow>
         (\<exists>blocked. mergeStringLists DEFAULT_CUSTOM_TOOLS_DISALLOWED (cto_disallowedTools policy)
              = Some blocked
            \<and> disallowedTools (resolvedSettings p)
              = mergeStringLists blocked
                  (disallowedTools (nullish (defaultSettings options) emptySettings)))
         \<and> (\<exists>l. disallowedTools (resolvedSettings p) = Some l \<and> distinct l
              \<and> take 2 l = [''Bash(*)'', ''Task(*)''])
         \<and> (disallowedTools (nullish (defaultSettings options) emptySettings) = None
              \<or> disallowedTools (nullish (defaultSettings options) emptySettings) = Some []
            \<longrightarrow> disallowedTools (resolvedSettings p)
              = mergeStringLists DEFAULT_CUSTOM_TOOLS_DISALLOWED (cto_disallowedTools policy)))"
proof -
  let ?ud = "nullish (defaultSettings options) emptySettings"
  let ?c = "normalizeCustomToolsOnlyOptions (customToolsOnly options)"
  from createZaiClaudeCode_settings [OF created] obtain key
    where rs: "resolvedSettings p = assembleSettings options key" by blast
  from active have c: "?c = normalizeEnabled policy" by auto
  obtain blocked where blocked:
    "mergeStringLists DEFAULT_CUSTOM_TOOLS_DISALLOWED (cto_disallowedTools policy) = Some blocked"
    by (simp add: mergeStringLists_pair)
  have en: "norm_enabled ?c" and na: "norm_allowedTools ?c = nullish (cto_allowedTools policy) []"
    and nd: "norm_disallowedTools ?c = blocked"
    by (simp_all add: c normalizeEnabled_def blocked nullish_def)
  have dist_blocked: "distinct blocked"
    using mergeStringLists_distinct [OF _ blocked] by (simp add: DEFAULT_CUSTOM_TOOLS_DISALLOWED_def)
  have pre_blocked: "take 2 blocked = [''Bash(*)'', ''Task(*)'']"
    using mergeStringLists_prefix [OF blocked]
    by (simp add: DEFAULT_CUSTOM_TOOLS_DISALLOWED_def numeral_2_eq_2)
  then have ne_blocked: "blocked \<noteq> []" by auto
  have allowed: "allowedTools (resolvedSettings p)
        = mergeAllowedTools (nullish (cto_allowedTools policy) []) (allowedTools ?ud)"
    by (simp add: rs assembleSettings_allowedTools Let_def en na)
  have dis: "disallowedTools (resolvedSettings p)
        = (if allowedTools (resolvedSettings p) = None
           then mergeStringLists blocked (disallowedTools ?ud) else None)"
    by (simp add: rs assembleSettings_disallowedTools Let_def en nd)
  obtain l where l: "mergeStringLists blocked (disallowedTools ?ud) = Some l"
    using ne_blocked by (auto simp: mergeStringLists_eq)
  have dist_l: "distinct l" by (rule mergeStringLists_distinct [OF dist_blocked l])
  have "take (length blocked) l = blocked" by (rule mergeStringLists_prefix [OF l])
  then have "take 2 (take (length blocked) l) = [''Bash(*)'', ''Task(*)'']"
    using pre_blocked by simp
  moreover have "2 \<le> length blocked"
    using pre_blocked by (cases blocked; cases "tl blocked") auto
  ultimately have pre_l: "take 2 l = [''Bash(*)'', ''Task(*)'']"
    by (simp add: min_def)
  have plain: "disallowedTools ?ud = None \<or> disallowedTools ?ud = Some []
      \<Longrightarrow> mergeStringLists blocked (disallowedTools ?ud) = Some blocked"
    using ne_blocked by (simp add: mergeStringLists_no_user)
  show ?thesis
    using allowed dis l dist_l pre_l blocked plain by auto
qed

theorem custom_tools_only_lists_witness:
  "createZaiClaudeCode
      (defaultOptions\<lparr>apiKey := Some ''unit-key'',
         customToolsOnly := Some (CustomToolsOnlyObject
           \<lparr> cto_systemPrompt = None, cto_allowedTools = Some [],
             cto_disallowedTools = Some [''Read''] \<rparr>)\<rparr>)
      None
    = Inr \<lparr> resolvedSettings =
              \<lparr> permissionMode = Some ''bypassPermissions'',
                allowedTools = None,
                disallowedTools = Some [''Bash(*)'', ''Task(*)'', ''Read''],
                systemPrompt = Some DEFAULT_CUSTOM_TOOLS_SYSTEM_PROMPT,
                mcpServers = None \<rparr>,
            providerMappings = [(Sonnet, ''glm-4.6''), (Opus, ''glm-4.6''), (Haiku, ''glm-4.5-air'')] \<rparr>"
proof -
  let ?pol = "\<lparr> cto_systemPrompt = None, cto_allowedTools = Some [],
             cto_disallowedTools = Some [''Read''] \<rparr>"
  let ?o = "defaultOptions\<lparr>apiKey := Some ''unit-key'',
         customToolsOnly := Some (CustomToolsOnlyObject ?pol)\<rparr>"
  have h: "createZaiClaudeCode ?o None
    = Inr \<lparr> resolvedSettings = assembleSettings ?o ''unit-key'',
            providerMappings = [(Sonnet, ''glm-4.6''), (Opus, ''glm-4.6''), (Haiku, ''glm-4.5-air'')] \<rparr>"
    by (simp add: createZaiClaudeCode_def defaultOptions_def resolveCredentials_def
        objectSpread_def spreadArg_def nullish_def DEFAULT_MODEL_MAPPINGS_def)
  have act: "customToolsOnly ?o = Some (CustomToolsOnlyObject ?pol)
        \<or> customToolsOnly ?o = Some (CustomToolsOnlyFlag True)
          \<and> ?pol = \<lparr> cto_systemPrompt = None, cto_allowedTools = None,
                cto_disallowedTools = None \<rparr>"
    by simp
  have m: "mergeStringLists DEFAULT_CUSTOM_TOOLS_DISALLOWED (Some [''Read''])
      = Some [''Bash(*)'', ''Task(*)'', ''Read'']"
    by (simp add: mergeStringLists_def DEFAULT_CUSTOM_TOOLS_DISALLOWED_def)
  have ad: "allowedTools (assembleSettings ?o ''unit-key'') = None
      \<and> disallowedTools (assembleSettings ?o ''unit-key'') = Some [''Bash(*)'', ''Task(*)'', ''Read'']"
    using custom_tools_only_lists [OF h act] m
    by (simp add: defaultOptions_def emptySettings_def nullish_def mergeAllowedTools_def
        mergeStringLists_def)
  have rest: "permissionMode (assembleSettings ?o ''unit-key'') = Some ''bypassPermissions''
      \<and> systemPrompt (assembleSettings ?o ''unit-key'') = Some DEFAULT_CUSTOM_TOOLS_SYSTEM_PROMPT
      \<and> mcpServers (assembleSettings ?o ''unit-key'') = None"
    by (simp add: assembleSettings_def defaultOptions_def emptySettings_def nullish_def
        normalizeEnabled_def mergeMcpServers_def mcpDefaults_def Let_def)
  have "assembleSettings ?o ''unit-key'' =
              \<lparr> permissionMode = Some ''bypassPermissions'',
                allowedTools = None,
                disallowedTools = Some [''Bash(*)'', ''Task(*)'', ''Read''],
                systemPrompt = Some DEFAULT_CUSTOM_TOOLS_SYSTEM_PROMPT,
                mcpServers = None \<rparr>"
    using ad rest by (cases "assembleSettings ?o ''unit-key''") simp
  with h show ?thesis by simp
qed

text \<open>
  C6, as stated, fails when the caller's defaults carry a disallowed list: its names are
  merged in after the pair and the policy's extra names.
\<close>

theorem custom_tools_only_default_blocklist_counterexample:
  "disallowedTools (assembleSettings
      (defaultOptions\<lparr>apiKey := Some ''unit-key'',
         customToolsOnly := Some (CustomToolsOnlyObject
           \<lparr> cto_systemPrompt = None, cto_allowedTools = None,
             cto_disallowedTools = Some [''Read''] \<rparr>),
         defaultSettings := Some (emptySettings\<lparr>disallowedTools := Some [''Write'']\<rparr>)\<rparr>)
      ''unit-key'')
     = Some [''Bash(*)'', ''Task(*)'', ''Read'', ''Write'']
   \<and> mergeStringLists DEFAULT_CUSTOM_TOOLS_DISALLOWED (Some [''Read''])
     = Some [''Bash(*)'', ''Task(*)'', ''Read'']"
  by (simp add: assembleSettings_allowedTools assembleSettings_disallowedTools
      defaultOptions_def emptySettings_def nullish_def mergeAllowedTools_def mergeStringLists_def
      normalizeEnabled_def DEFAULT_CUSTOM_TOOLS_DISALLOWED_def)


subsection \<open>The auxiliary servers\<close>

text \<open>
  An object holds each key once; spreading such an object over another overrides the
  entries of the same key and adds the others.
\<close>

lemma map_of_objectSpread:
  "distinct (map fst over) \<Longrightarrow> map_of (objectSpread base over) = map_of base ++ map_of over"
proof (induction over arbitrary: base)
  case Nil
  then show ?case by (simp add: objectSpread_def)
next
  case (Cons kv over)
  obtain k v where kv: "kv = (k, v)" by (cases kv)
  from Cons.prems have fresh: "k \<notin> fst ` set over" and dist: "distinct (map fst over)"
    by (auto simp: kv)
  have "objectSpread base (kv # over) = objectSpread (AList.update k v base) over"
    by (simp add: objectSpread_def kv)
  then have step: "map_of (objectSpread base (kv # over))
      = map_of (AList.update k v base) ++ map_of over"
    using Cons.IH [OF dist, of "AList.update k v base"] by simp
  have none_k: "map_of over k = None"
    using fresh by (simp add: map_of_eq_None_iff)
  show ?case
  proof (rule ext)
    fix x
    show "map_of (objectSpread base (kv # over)) x = (map_of base ++ map_of (kv # over)) x"
    proof (cases "x = k")
      case True
      then show ?thesis unfolding step by (simp add: kv map_add_def none_k update_conv')
    next
      case False
      then show ?thesis unfolding step
        by (simp add: kv map_add_def update_conv' split: option.split)
    qed
  qed
qed

lemma map_of_mcpDefaults:
  "map_of (mcpDefaults a) =
     (\<lambda>name.
        if name = ''web-search-prime''
        then (if mm_enableWebSearch a then Some (webSearchDescriptor (mm_apiKey a)) else None)
        else if name = ''web-reader''
        then (if mm_enableWebReader a then Some (webReaderDescriptor (mm_apiKey a)) else None)
        else if name = ''zai-vision''
        then (if mm_enableVision a
              then Some (visionDescriptor (mm_apiKey a) (mm_visionCommand a)) else None)
        else None)"
  by (rule ext) (simp add: mcpDefaults_def Let_def update_conv')

lemma distinct_mcpDefaults: "distinct (map fst (mcpDefaults a))"
  by (simp add: mcpDefaults_def Let_def distinct_update)

lemma mcpDefaults_empty:
  "mcpDefaults a = [] \<longleftrightarrow> \<not> mm_enableWebSearch a \<and> \<not> mm_enableWebReader a \<and> \<not> mm_enableVision a"
  by (simp add: mcpDefaults_def Let_def)

text \<open>
  C7: in the settings of a created provider, the built-in servers are a mapping that
  holds the web-search, web-reader and vision descriptors, each exactly when its
  capability is enabled (its flag, true by default, is true and the custom-tools-only
  policy is inactive), and nothing else; when the caller's defaults give a mapping (an
  object, each key once), the result is the built-in mapping overlaid with it, the
  caller's entry replacing the built-in entry of the same key; when they give none, the
  result is the built-in mapping, and is absent when no capability is enabled.
\<close>

theorem auxiliary_servers:
  assumes created: "createZaiClaudeCode options environmentKey = Inr p"
    and key: "resolveCredentials (apiKey options) environmentKey = Inr key"
    and object: "\<forall>u. mcpServers (nullish (defaultSettings options) emptySettings) = Some u
                   \<longrightarrow> distinct (map fst u)"
  shows "\<exists>builtin.
      map_of builtin =
        (\<lambda>name.
           if name = ''web-search-prime''
           then (if capabilityEnabled (enableWebSearchMcp options) options
                 then Some (McpHttp WEB_SEARCH_SERVER (Some [(''Authorization'', ''Bearer '' @ key)]))
                 else None)
           else if name = ''web-reader''
           then (if capabilityEnabled (enableWebReaderMcp options) options
                 then Some (McpHttp WEB_READER_SERVER (Some [(''Authorization'', ''Bearer '' @ key)]))
                 else None)
           else if name = ''zai-vision''
           then (if capabilityEnabled (enableVisionMcp options) options
                 then Some (visionDescriptor key (visionCommand options)) else None)
           else None)
      \<and> distinct (map fst builtin)
      \<and> (builtin = [] \<longleftrightarrow>
            \<not> capabilityEnabled (enableWebSearchMcp options) options
            \<and> \<not> capabilityEnabled (enableWebReaderMcp options) options
            \<and> \<not> capabilityEnabled (enableVisionMcp options) options)
      \<and> (\<forall>u. mcpServers (nullish (defaultSettings options) emptySettings) = Some u \<longrightarrow>
            (\<exists>r. mcpServers (resolvedSettings p) = Some r
               \<and> map_of r = map_of builtin ++ map_of u))
      \<and> (mcpServers (nullish (defaultSettings options) emptySettings) = None \<longrightarrow>
            mcpServers (resolvedSettings p) = (if builtin = [] then None else Some builtin))"
proof -
  let ?ud = "nullish (defaultSettings options) emptySettings"
  let ?a = "\<lparr> mm_apiKey = key,
             mm_enableWebSearch = capabilityEnabled (enableWebSearchMcp options) options,
             mm_enableWebReader = capabilityEnabled (enableWebReaderMcp options) options,
             mm_enableVision = capabilityEnabled (enableVisionMcp options) options,
             mm_userMcpServers = mcpServers ?ud,
             mm_visionCommand = visionCommand options \<rparr>"
  from createZaiClaudeCode_settings [OF created] key
  have rs: "resolvedSettings p = assembleSettings options key" by auto
  have mcp: "mcpServers (resolvedSettings p) = mergeMcpServers ?a"
    by (simp add: rs assembleSettings_mcpServers Let_def capabilityEnabled_def)
  have m: "map_of (mcpDefaults ?a) =
        (\<lambda>name.
           if name = ''web-search-prime''
           then (if capabilityEnabled (enableWebSearchMcp options) options
                 then Some (McpHttp WEB_SEARCH_SERVER (Some [(''Authorization'', ''Bearer '' @ key)]))
                 else None)
           else if name = ''web-reader''
           then (if capabilityEnabled (enableWebReaderMcp options) options
                 then Some (McpHttp WEB_READER_SERVER (Some [(''Authorization'', ''Bearer '' @ key)]))
                 else None)
           else if name = ''zai-vision''
           then (if capabilityEnabled (enableVisionMcp options) options
                 then Some (visionDescriptor key (visionCommand options)) else None)
           else None)"
    unfolding map_of_mcpDefaults
    by (rule ext) (simp add: webSearchDescriptor_def webReaderDescriptor_def)
  have e: "mcpDefaults ?a = [] \<longleftrightarrow>
            \<not> capabilityEnabled (enableWebSearchMcp options) options
            \<and> \<not> capabilityEnabled (enableWebReaderMcp options) options
            \<and> \<not> capabilityEnabled (enableVisionMcp options) options"
    by (simp add: mcpDefaults_empty)
  have u: "\<forall>u. mcpServers ?ud = Some u \<longrightarrow>
            (\<exists>r. mcpServers (resolvedSettings p) = Some r
               \<and> map_of r = map_of (mcpDefaults ?a) ++ map_of u)"
    using object by (auto simp: mcp mergeMcpServers_def map_of_objectSpread)
  have n: "mcpServers ?ud = None \<longrightarrow>
            mcpServers (resolvedSettings p)
              = (if mcpDefaults ?a = [] then None else Some (mcpDefaults ?a))"
    by (simp add: mcp mergeMcpServers_def)
  show ?thesis
    by (rule exI [of _ "mcpDefaults ?a"]) (intro conjI m distinct_mcpDefaults e u n)
qed


theorem auxiliary_servers_witness:
  "(\<exists>r. mcpServers (assembleSettings
            (defaultOptions\<lparr>apiKey := Some ''unit-key'',
               defaultSettings := Some (emptySettings\<lparr>mcpServers :=
                 Some [(''web-search-prime'', McpHttp ''https://override'' None)]\<rparr>)\<rparr>)
            ''unit-key'') = Some r
      \<and> map_of r ''web-search-prime'' = Some (McpHttp ''https://override'' None)
      \<and> map_of r ''web-reader''
          = Some (McpHttp ''https://api.z.ai/api/mcp/web_reader/mcp''
                    (Some [(''Authorization'', ''Bearer unit-key'')]))
      \<and> map_of r ''zai-vision''
          = Some (McpStdio ''npx'' (Some [''-y'', ''@z_ai/mcp-server''])
                    (Some [(''Z_AI_API_KEY'', Some ''unit-key''), (''Z_AI_MODE'', Some ''ZAI'')]))
      \<and> map_of r ''other'' = None)
   \<and> mcpServers (assembleSettings
          (defaultOptions\<lparr>apiKey := Some ''unit-key'', enableWebSearchMcp := Some False,
             enableWebReaderMcp := Some False, enableVisionMcp := Some False\<rparr>)
          ''unit-key'') = None"
proof -
  let ?u = "[(''web-search-prime'', McpHttp ''https://override'' None)]"
  let ?o = "defaultOptions\<lparr>apiKey := Some ''unit-key'',
               defaultSettings := Some (emptySettings\<lparr>mcpServers := Some ?u\<rparr>)\<rparr>"
  let ?off = "defaultOptions\<lparr>apiKey := Some ''unit-key'', enableWebSearchMcp := Some False,
             enableWebReaderMcp := Some False, enableVisionMcp := Some False\<rparr>"
  let ?t = "[(Sonnet, ''glm-4.6''), (Opus, ''glm-4.6''), (Haiku, ''glm-4.5-air'')]"
  have k1: "resolveCredentials (apiKey ?o) None = Inr ''unit-key''"
    and k2: "resolveCredentials (apiKey ?off) None = Inr ''unit-key''"
    by (simp_all add: resolveCredentials_def)
  have h1: "createZaiClaudeCode ?o None
      = Inr \<lparr> resolvedSettings = assembleSettings ?o ''unit-key'', providerMappings = ?t \<rparr>"
    by (simp add: createZaiClaudeCode_def resolveCredentials_def objectSpread_def spreadArg_def
        nullish_def DEFAULT_MODEL_MAPPINGS_def defaultOptions_def)
  have h2: "createZaiClaudeCode ?off None
      = Inr \<lparr> resolvedSettings = assembleSettings ?off ''unit-key'', providerMappings = ?t \<rparr>"
    by (simp add: createZaiClaudeCode_def resolveCredentials_def objectSpread_def spreadArg_def
        nullish_def DEFAULT_MODEL_MAPPINGS_def defaultOptions_def)
  have ud1: "mcpServers (nullish (defaultSettings ?o) emptySettings) = Some ?u"
    by (simp add: nullish_def)
  have ud2: "mcpServers (nullish (defaultSettings ?off) emptySettings) = None"
    by (simp add: nullish_def defaultOptions_def emptySettings_def)
  have o1: "\<forall>u. mcpServers (nullish (defaultSettings ?o) emptySettings) = Some u
              \<longrightarrow> distinct (map fst u)"
    by (auto simp: nullish_def)
  have o2: "\<forall>u. mcpServers (nullish (defaultSettings ?off) emptySettings) = Some u
              \<longrightarrow> distinct (map fst u)"
    by (simp add: nullish_def defaultOptions_def emptySettings_def)
  have en: "capabilityEnabled (enableWebSearchMcp ?o) ?o"
      "capabilityEnabled (enableWebReaderMcp ?o) ?o"
      "capabilityEnabled (enableVisionMcp ?o) ?o"
    by (simp_all add: capabilityEnabled_def defaultOptions_def nullish_def)
  have dis: "\<not> capabilityEnabled (enableWebSearchMcp ?off) ?off"
      "\<not> capabilityEnabled (enableWebReaderMcp ?off) ?off"
      "\<not> capabilityEnabled (enableVisionMcp ?off) ?off"
    by (simp_all add: capabilityEnabled_def nullish_def)
  have vis: "visionDescriptor ''unit-key'' (visionCommand ?o)
      = McpStdio ''npx'' (Some [''-y'', ''@z_ai/mcp-server''])
          (Some [(''Z_AI_API_KEY'', Some ''unit-key''), (''Z_AI_MODE'', Some ''ZAI'')])"
    by (simp add: visionDescriptor_def defaultOptions_def nullish_def objectSpread_def
        spreadArg_def)
  from auxiliary_servers [OF h1 k1 o1] obtain builtin r where
    b: "map_of builtin =
        (\<lambda>name.
           if name = ''web-search-prime''
           then (if capabilityEnabled (enableWebSearchMcp ?o) ?o
                 then Some (McpHttp WEB_SEARCH_SERVER (Some [(''Authorization'', ''Bearer '' @ ''unit-key'')]))
                 else None)
           else if name = ''web-reader''
           then (if capabilityEnabled (enableWebReaderMcp ?o) ?o
                 then Some (McpHttp WEB_READER_SERVER (Some [(''Authorization'', ''Bearer '' @ ''unit-key'')]))
                 else None)
           else if name = ''zai-vision''
           then (if capabilityEnabled (enableVisionMcp ?o) ?o
                 then Some (visionDescriptor ''unit-key'' (visionCommand ?o)) else None)
           else None)"
    and r: "mcpServers (resolvedSettings \<lparr> resolvedSettings = assembleSettings ?o ''unit-key'',
               providerMappings = ?t \<rparr>) = Some r"
       "map_of r = map_of builtin ++ map_of ?u"
    using ud1 by blast
  have first: "mcpServers (assembleSettings ?o ''unit-key'') = Some r
      \<and> map_of r ''web-search-prime'' = Some (McpHttp ''https://override'' None)
      \<and> map_of r ''web-reader''
          = Some (McpHttp ''https://api.z.ai/api/mcp/web_reader/mcp''
                    (Some [(''Authorization'', ''Bearer unit-key'')]))
      \<and> map_of r ''zai-vision''
          = Some (McpStdio ''npx'' (Some [''-y'', ''@z_ai/mcp-server''])
                    (Some [(''Z_AI_API_KEY'', Some ''unit-key''), (''Z_AI_MODE'', Some ''ZAI'')]))
      \<and> map_of r ''other'' = None"
    using r(1) en vis unfolding r(2) b by (simp add: WEB_READER_SERVER_def map_add_def)
  from auxiliary_servers [OF h2 k2 o2] obtain builtin2 where
    "builtin2 = [] \<longleftrightarrow>
            \<not> capabilityEnabled (enableWebSearchMcp ?off) ?off
            \<and> \<not> capabilityEnabled (enableWebReaderMcp ?off) ?off
            \<and> \<not> capabilityEnabled (enableVisionMcp ?off) ?off"
    "mcpServers (resolvedSettings \<lparr> resolvedSettings = assembleSettings ?off ''unit-key'',
               providerMappings = ?t \<rparr>) = (if builtin2 = [] then None else Some builtin2)"
    using ud2 by blast
  with dis have second: "mcpServers (assembleSettings ?off ''unit-key'') = None"
    by simp
  from first second show ?thesis by blast
qed

section \<open>Properties of the wrapped provider\<close>

lemma alias_name_in_aliases: "alias_name a \<in> set (map alias_name CLAUDE_ALIASES)"
  by (cases a) (simp_all add: CLAUDE_ALIASES_def)

text \<open>
  C9 (amended): for every base provider, table and model identifier, the callable form,
  \<open>languageModel\<close> and \<open>chat\<close> of the wrapped provider invoke the base provider with the
  name of the alias that \<open>resolveModelId\<close> returns (which differs from the requested
  identifier unless that is an alias name already), with the settings unchanged, and
  throw the error of \<open>resolveModelId\<close>, the base provider not invoked, when there is
  none; \<open>imageModel\<close> and \<open>textEmbeddingModel\<close> are the base provider's own methods and
  receive the requested identifier as it is.
\<close>

theorem wrapped_provider_resolves:
  "(\<forall>a. resolveModelId modelId mappings = Inr a \<longrightarrow>
        providerCall (wrapProviderWithModelResolution base mappings) modelId settings
          = Inr (providerCall base (alias_name a) settings)
      \<and> languageModel (wrapProviderWithModelResolution base mappings) modelId settings
          = Inr (languageModel base (alias_name a) settings)
      \<and> chat (wrapProviderWithModelResolution base mappings) modelId settings
          = Inr (chat base (alias_name a) settings)
      \<and> (modelId \<notin> set (map alias_name CLAUDE_ALIASES) \<longrightarrow> alias_name a \<noteq> modelId))
   \<and> (\<forall>e. resolveModelId modelId mappings = Inl e \<longrightarrow>
        providerCall (wrapProviderWithModelResolution base mappings) modelId settings = Inl e
      \<and> languageModel (wrapProviderWithModelResolution base mappings) modelId settings = Inl e
      \<and> chat (wrapProviderWithModelResolution base mappings) modelId settings = Inl e)
   \<and> imageModel (wrapProviderWithModelResolution base mappings) modelId
        = Inr (imageModel base modelId)
   \<and> textEmbeddingModel (wrapProviderWithModelResolution base mappings) modelId
        = Inr (textEmbeddingModel base modelId)"
  using alias_name_in_aliases
  by (auto simp: wrapProviderWithModelResolution_def)

theorem wrapped_provider_resolves_witness:
  "providerCall (wrapProviderWithModelResolution recordingProvider DEFAULT_MODEL_MAPPINGS)
       ''glm-4.5-air'' (Some emptySettings)
     = Inr (Callable, ''haiku'', Some emptySettings)
   \<and> languageModel (wrapProviderWithModelResolution recordingProvider DEFAULT_MODEL_MAPPINGS)
       ''glm-4.5-air'' (Some emptySettings)
     = Inr (LanguageModel, ''haiku'', Some emptySettings)
   \<and> chat (wrapProviderWithModelResolution recordingProvider DEFAULT_MODEL_MAPPINGS)
       ''glm-4.5-air'' (Some emptySettings)
     = Inr (Chat, ''haiku'', Some emptySettings)"
proof -
  have r: "resolveModelId ''glm-4.5-air'' DEFAULT_MODEL_MAPPINGS = Inr Haiku"
    by (simp add: resolveModelId_def CLAUDE_ALIASES_def DEFAULT_MODEL_MAPPINGS_def)
  from wrapped_provider_resolves
    [of "''glm-4.5-air''" DEFAULT_MODEL_MAPPINGS recordingProvider "Some emptySettings"] r
  show ?thesis by (simp add: recordingProvider_def)
qed

text \<open>
  C9, as stated, fails for \<open>imageModel\<close> and \<open>textEmbeddingModel\<close>: bound to the base
  provider, they pass the identifier \<open>glm-4.6\<close> on, where \<open>resolveModelId\<close> gives sonnet.
\<close>

theorem imageModel_raw_identifier_counterexample:
  "imageModel
       (wrapProviderWithModelResolution
          (recordingProvider :: (ClaudeCodeSettings, EntryPoint \<times> string \<times> ClaudeCodeSettings option) ClaudeCodeProvider)
          DEFAULT_MODEL_MAPPINGS) ''glm-4.6''
     = Inr (ImageModel, ''glm-4.6'', None)
   \<and> textEmbeddingModel
       (wrapProviderWithModelResolution
          (recordingProvider :: (ClaudeCodeSettings, EntryPoint \<times> string \<times> ClaudeCodeSettings option) ClaudeCodeProvider)
          DEFAULT_MODEL_MAPPINGS) ''glm-4.6''
     = Inr (TextEmbeddingModel, ''glm-4.6'', None)
   \<and> resolveModelId ''glm-4.6'' DEFAULT_MODEL_MAPPINGS = Inr Sonnet
   \<and> alias_name Sonnet \<noteq> ''glm-4.6''"
  by (simp add: wrapProviderWithModelResolution_def recordingProvider_def resolveModelId_def
      CLAUDE_ALIASES_def DEFAULT_MODEL_MAPPINGS_def)

section \<open>Properties of the forced tool injection\<close>

text \<open>
  C10 (amended): \<open>forceCustomTools\<close> throws the tool-not-found error, which names the
  tool, exactly when the named tool is absent from the tool map or has no \<open>execute\<close>
  handler, and then no external call has been made. Otherwise it calls the handler once,
  with the given input, the call id \<open>forced:\<close> followed by the tool name, and the given
  messages. If the handler rejects, that is the outcome and \<open>streamText\<close> is not called.
  If it returns a result, \<open>streamText\<close> is called once, after it, with the given model
  and tools, the tool choice pinned to the tool name, and as messages a system message
  (the given system prompt, or the default guardrail prompt), the given messages, and an
  assistant turn made of a tool-call block, a tool-result block and, when the effective
  acknowledgement (the one supplied or, when none is supplied, the default text) is not
  empty, a text block holding it.
\<close>

theorem forceCustomTools_injects:
  "((\<exists>e. snd (forceCustomTools streamText a) = Threw e) \<longleftrightarrow>
      fa_tools a (fa_toolName a) = None
      \<or> (\<exists>tool. fa_tools a (fa_toolName a) = Some tool \<and> execute tool = None))
   \<and> ((\<exists>e. snd (forceCustomTools streamText a) = Threw e) \<longrightarrow>
        forceCustomTools streamText a
          = ([], Threw (Error (''Tool '' @ [CHR 0x22] @ fa_toolName a @ [CHR 0x22]
                 @ '' is not defined or missing an execute handler.''))))
   \<and> (\<forall>tool exec. fa_tools a (fa_toolName a) = Some tool \<and> execute tool = Some exec \<longrightarrow>
        (let callOptions = \<lparr> toolCallId = ''forced:'' @ fa_toolName a,
                              tco_messages = fa_messages a \<rparr>;
             executeCall = ExecuteCall (fa_toolName a) (fa_toolInput a) callOptions;
             acknowledgement = nullish (fa_acknowledgement a) DEFAULT_ACKNOWLEDGEMENT
         in (\<forall>e. exec (fa_toolInput a) callOptions = Inl e \<longrightarrow>
               forceCustomTools streamText a = ([executeCall], ExecuteRejected e))
          \<and> (\<forall>result. exec (fa_toolInput a) callOptions = Inr result \<longrightarrow>
               (let streamArgs =
                      \<lparr> st_model = fa_model a, st_tools = fa_tools a,
                        st_toolChoice = fa_toolName a,
                        st_messages =
                          \<lparr> role = System,
                            content = TextContent
                              (nullish (fa_systemPrompt a) DEFAULT_CUSTOM_TOOLS_SYSTEM_PROMPT) \<rparr>
                          # fa_messages a
                          @ [\<lparr> role = Assistant,
                               content = BlockContent
                                 ([ToolCallBlock (fa_toolName a) (fa_toolInput a),
                                   ToolResultBlock (fa_toolName a) result]
                                  @ (if acknowledgement = [] then []
                                     else [TextBlock acknowledgement])) \<rparr>] \<rparr>
                in forceCustomTools streamText a
                     = ([executeCall, StreamTextCall streamArgs],
                        Streamed (streamText streamArgs))))))"
  by (auto simp: forceCustomTools_def runForcedTool_def toolNotFoundMessage_def Let_def
      split: option.splits sum.splits)


theorem forceCustomTools_injects_witness:
  "forceCustomTools st_messages (echoArgs ''echo_tool'' (Some ''ack''))
     = ([ExecuteCall ''echo_tool'' ''custom_check''
           \<lparr> toolCallId = ''forced:echo_tool'',
             tco_messages = [\<lparr> role = User, content = TextContent ''run tool'' \<rparr>] \<rparr>,
         StreamTextCall
           \<lparr> st_model = (), st_tools = echoTools, st_toolChoice = ''echo_tool'',
             st_messages =
               [\<lparr> role = System, content = TextContent ''be concise'' \<rparr>,
                \<lparr> role = User, content = TextContent ''run tool'' \<rparr>,
                \<lparr> role = Assistant,
                  content = BlockContent
                    [ToolCallBlock ''echo_tool'' ''custom_check'',
                     ToolResultBlock ''echo_tool'' ''echoed: custom_check'',
                     TextBlock ''ack''] \<rparr>] \<rparr>],
        Streamed
          [\<lparr> role = System, content = TextContent ''be concise'' \<rparr>,
           \<lparr> role = User, content = TextContent ''run tool'' \<rparr>,
           \<lparr> role = Assistant,
             content = BlockContent
               [ToolCallBlock ''echo_tool'' ''custom_check'',
                ToolResultBlock ''echo_tool'' ''echoed: custom_check'',
                TextBlock ''ack''] \<rparr>])
   \<and> forceCustomTools st_messages (echoArgs ''missing'' None)
     = ([], Threw (Error (''Tool '' @ [CHR 0x22] @ ''missing'' @ [CHR 0x22]
                 @ '' is not defined or missing an execute handler.'')))
   \<and> forceCustomTools st_messages (echoArgs ''inert'' None)
     = ([], Threw (Error (''Tool '' @ [CHR 0x22] @ ''inert'' @ [CHR 0x22]
                 @ '' is not defined or missing an execute handler.'')))"
proof -
  have t1: "fa_tools (echoArgs ''echo_tool'' (Some ''ack'')) (fa_toolName (echoArgs ''echo_tool'' (Some ''ack'')))
        = Some \<lparr> execute = Some (\<lambda>text callOptions. Inr (''echoed: '' @ text)) \<rparr>
      \<and> execute \<lparr> execute = Some (\<lambda>text (callOptions :: (string, string) ToolCallOptions). (Inr (''echoed: '' @ text) :: unit + string)) \<rparr>
        = Some (\<lambda>text callOptions. Inr (''echoed: '' @ text))"
    by (simp add: echoArgs_def echoTools_def)
  have t2: "fa_tools (echoArgs ''missing'' None) (fa_toolName (echoArgs ''missing'' None)) = None"
    by (simp add: echoArgs_def echoTools_def)
  have t3: "fa_tools (echoArgs ''inert'' None) (fa_toolName (echoArgs ''inert'' None))
        = Some \<lparr> execute = None \<rparr>"
    by (simp add: echoArgs_def echoTools_def)
  have first: "forceCustomTools st_messages (echoArgs ''echo_tool'' (Some ''ack''))
     = ([ExecuteCall ''echo_tool'' ''custom_check''
           \<lparr> toolCallId = ''forced:echo_tool'',
             tco_messages = [\<lparr> role = User, content = TextContent ''run tool'' \<rparr>] \<rparr>,
         StreamTextCall
           \<lparr> st_model = (), st_tools = echoTools, st_toolChoice = ''echo_tool'',
             st_messages =
               [\<lparr> role = System, content = TextContent ''be concise'' \<rparr>,
                \<lparr> role = User, content = TextContent ''run tool'' \<rparr>,
                \<lparr> role = Assistant,
                  content = BlockContent
                    [ToolCallBlock ''echo_tool'' ''custom_check'',
                     ToolResultBlock ''echo_tool'' ''echoed: custom_check'',
                     TextBlock ''ack''] \<rparr>] \<rparr>],
        Streamed
          [\<lparr> role = System, content = TextContent ''be concise'' \<rparr>,
           \<lparr> role = User, content = TextContent ''run tool'' \<rparr>,
           \<lparr> role = Assistant,
             content = BlockContent
               [ToolCallBlock ''echo_tool'' ''custom_check'',
                ToolResultBlock ''echo_tool'' ''echoed: custom_check'',
                TextBlock ''ack''] \<rparr>])"
    using forceCustomTools_injects [of st_messages "echoArgs ''echo_tool'' (Some ''ack'')",
        THEN conjunct2, THEN conjunct2, THEN spec, THEN spec, THEN mp, OF t1]
    by (simp add: echoArgs_def Let_def nullish_def)
  have second: "forceCustomTools st_messages (echoArgs ''missing'' None)
     = ([], Threw (Error (''Tool '' @ [CHR 0x22] @ ''missing'' @ [CHR 0x22]
                 @ '' is not defined or missing an execute handler.'')))"
    using forceCustomTools_injects [of st_messages "echoArgs ''missing'' None"] t2
    by (simp add: echoArgs_def)
  have third: "forceCustomTools st_messages (echoArgs ''inert'' None)
     = ([], Threw (Error (''Tool '' @ [CHR 0x22] @ ''inert'' @ [CHR 0x22]
                 @ '' is not defined or missing an execute handler.'')))"
    using forceCustomTools_injects [of st_messages "echoArgs ''inert'' None"] t3
    by (simp add: echoArgs_def)
  from first second third show ?thesis by simp
qed

text \<open>
  C10, as stated, fails for an acknowledgement that is supplied and empty: the assistant
  turn then has no text block.
\<close>

theorem forceCustomTools_empty_acknowledgement_counterexample:
  "fa_acknowledgement (echoArgs ''echo_tool'' (Some [])) = Some []
   \<and> snd (forceCustomTools st_messages (echoArgs ''echo_tool'' (Some [])))
     = Streamed
         [\<lparr> role = System, content = TextContent ''be concise'' \<rparr>,
          \<lparr> role = User, content = TextContent ''run tool'' \<rparr>,
          \<lparr> role = Assistant,
            content = BlockContent
              [ToolCallBlock ''echo_tool'' ''custom_check'',
               ToolResultBlock ''echo_tool'' ''echoed: custom_check''] \<rparr>]"
  by (simp add: forceCustomTools_def runForcedTool_def echoArgs_def echoTools_def nullish_def
      Let_def)

end
